theory Spec2Isabelle
  imports Main "HOL-Library.AList" "HOL-Library.Word"
begin

section \<open>JavaScript values that reach the handlers\<close>

text \<open>
  A JavaScript string is a sequence of 16-bit code units. \<open>lit\<close> turns a literal of the
  source (\<^verbatim>\<open>'update'\<close>, \<^verbatim>\<open>'true'\<close>, ...) into such a sequence.
\<close>

type_synonym code_unit = "16 word"

type_synonym js_string = "code_unit list"

definition lit :: "string \<Rightarrow> js_string" where
  "lit s = map of_char s"

text \<open>
  A number is a double. The programs never calculate with a number; they test it for
  truthiness, turn it into text and serialise it. The model keeps of a number what these
  three operations observe: whether it is zero (\<^verbatim>\<open>0\<close> or \<^verbatim>\<open>-0\<close>), whether it is finite, and
  the text \<^verbatim>\<open>String(n)\<close>.
\<close>

datatype number = Number (num_zero: bool) (num_finite: bool) (num_text: js_string)

text \<open>
  Both programs of the repository (the authority \<^verbatim>\<open>server.js\<close> and the page script that
  follows it in the same source file) read their input with \<^verbatim>\<open>JSON.parse\<close>. A text frame is
  represented by the value \<^verbatim>\<open>JSON.parse\<close> yields for it; a frame that \<^verbatim>\<open>JSON.parse\<close> rejects
  is \<open>None\<close>. The property list of an object is in the order \<^verbatim>\<open>Object.entries\<close> reports.
  A value that may be \<^verbatim>\<open>undefined\<close> is a \<open>json option\<close> with \<open>None\<close> for \<^verbatim>\<open>undefined\<close>.
\<close>

datatype json =
    JNull
  | JBool bool
  | JNum number
  | JStr js_string
  | JArr "json list"
  | JObj "(js_string \<times> json) list"

type_synonym jsval = "json option"

datatype js_error = TypeError

text \<open>Reading a property \<^verbatim>\<open>v.k\<close>: \<^verbatim>\<open>null\<close> and \<^verbatim>\<open>undefined\<close> throw, an object yields its own
  property, and every other value yields \<^verbatim>\<open>undefined\<close> for the four names the handlers read
  (\<^verbatim>\<open>type\<close>, \<^verbatim>\<open>payload\<close>, \<^verbatim>\<open>field\<close>, \<^verbatim>\<open>value\<close>: none is defined on a built-in prototype).\<close>

fun get_prop :: "jsval \<Rightarrow> js_string \<Rightarrow> js_error + jsval" where
  "get_prop None k = Inl TypeError"
| "get_prop (Some JNull) k = Inl TypeError"
| "get_prop (Some (JObj ps)) k = Inr (map_of ps k)"
| "get_prop (Some v) k = Inr None"

text \<open>Truthiness, as \<^verbatim>\<open>&&\<close> and \<^verbatim>\<open>||\<close> test it.\<close>

fun truthy :: "jsval \<Rightarrow> bool" where
  "truthy None = False"
| "truthy (Some JNull) = False"
| "truthy (Some (JBool b)) = b"
| "truthy (Some (JNum n)) = (\<not> num_zero n)"
| "truthy (Some (JStr s)) = (s \<noteq> [])"
| "truthy (Some (JArr xs)) = True"
| "truthy (Some (JObj ps)) = True"

fun join_comma :: "js_string list \<Rightarrow> js_string" where
  "join_comma [] = []"
| "join_comma [s] = s"
| "join_comma (s # t # ss) = s @ lit '','' @ join_comma (t # ss)"

text \<open>
  \<^verbatim>\<open>String(v)\<close> for a parsed value. An object with an own \<^verbatim>\<open>toString\<close> property throws: the
  property holds parsed data, never a function, and \<^verbatim>\<open>valueOf\<close> does not yield a primitive.
  Any other object gives \<^verbatim>\<open>[object Object]\<close>. An array joins the texts of its elements with
  commas, where a \<^verbatim>\<open>null\<close> element gives the empty text; the first element that throws makes
  the array throw.
\<close>

fun to_string :: "json \<Rightarrow> js_error + js_string"
  and element_strings :: "json list \<Rightarrow> js_error + js_string list" where
  "to_string JNull = Inr (lit ''null'')"
| "to_string (JBool b) = Inr (if b then lit ''true'' else lit ''false'')"
| "to_string (JNum n) = Inr (num_text n)"
| "to_string (JStr s) = Inr s"
| "to_string (JArr xs) =
     (case element_strings xs of Inl err \<Rightarrow> Inl err | Inr ss \<Rightarrow> Inr (join_comma ss))"
| "to_string (JObj ps) =
     (if lit ''toString'' \<in> set (map fst ps) then Inl TypeError
      else Inr (lit ''[object Object]''))"
| "element_strings [] = Inr []"
| "element_strings (x # xs) =
     (case (if x = JNull then Inr [] else to_string x) of
        Inl err \<Rightarrow> Inl err
      | Inr s \<Rightarrow>
          (case element_strings xs of Inl err \<Rightarrow> Inl err | Inr ss \<Rightarrow> Inr (s # ss)))"

text \<open>\<^verbatim>\<open>String(v)\<close> for a value that may be \<^verbatim>\<open>undefined\<close>; this is also the property key that
  \<^verbatim>\<open>obj[v]\<close> and \<^verbatim>\<open>obj.hasOwnProperty(v)\<close> use, and the text a template literal inserts.\<close>

fun js_to_string :: "jsval \<Rightarrow> js_error + js_string" where
  "js_to_string None = Inr (lit ''undefined'')"
| "js_to_string (Some v) = to_string v"

section \<open>Wire messages\<close>

text \<open>
  What the peer's \<^verbatim>\<open>JSON.parse\<close> yields for the text \<^verbatim>\<open>JSON.stringify\<close> writes for a parsed
  value: the value itself, except that a number that is not finite is written as \<^verbatim>\<open>null\<close>.
\<close>

fun stringify_value :: "json \<Rightarrow> json" where
  "stringify_value (JNum n) = (if num_finite n then JNum n else JNull)"
| "stringify_value (JArr xs) = JArr (map stringify_value xs)"
| "stringify_value (JObj ps) = JObj (map (\<lambda>p. (fst p, stringify_value (snd p))) ps)"
| "stringify_value v = v"

text \<open>The two object literals the programs serialise. \<^verbatim>\<open>JSON.stringify\<close> leaves out a property
  whose value is \<^verbatim>\<open>undefined\<close>.\<close>

type_synonym js_object = "(js_string \<times> jsval) list"

datatype message =
    Initial_state js_object
  | Update jsval jsval

fun defined_props :: "js_object \<Rightarrow> (js_string \<times> json) list" where
  "defined_props [] = []"
| "defined_props ((k, None) # ps) = defined_props ps"
| "defined_props ((k, Some v) # ps) = (k, stringify_value v) # defined_props ps"

fun JSON_stringify :: "message \<Rightarrow> json" where
  "JSON_stringify (Initial_state payload) =
     JObj [(lit ''type'', JStr (lit ''initial_state'')),
           (lit ''payload'', JObj (defined_props payload))]"
| "JSON_stringify (Update field val) =
     JObj [(lit ''type'', JStr (lit ''update'')),
           (lit ''payload'', JObj (defined_props [(lit ''field'', field), (lit ''value'', val)]))]"

section \<open>The authority (server.js)\<close>

type_synonym conn = nat

datatype ready_state = CONNECTING | OPEN | CLOSING | CLOSED

datatype console_entry =
    Log_client_connected
  | Log_sent_initial_state
  | Error_initial_state_failed
  | Log_received
  | Log_updated js_string js_string
  | Warn_unknown_field js_string
  | Log_non_update js_string
  | Error_process_failed
  | Log_broadcasting json
  | Warn_stale_removed
  | Log_disconnected
  | Error_client

text \<open>
  The state the handlers share: the object \<^verbatim>\<open>currentData\<close>, the set \<^verbatim>\<open>clients\<close> in insertion
  order, the \<^verbatim>\<open>readyState\<close> of every socket (kept by the WebSocket library), the sockets
  whose \<^verbatim>\<open>message\<close>, \<^verbatim>\<open>close\<close> and \<^verbatim>\<open>error\<close> listeners are attached, and three traces: the
  frames given to \<^verbatim>\<open>send\<close>, the sockets on which \<^verbatim>\<open>close()\<close> was called, and the console.
\<close>

record server =
  currentData :: js_object
  clients :: "conn list"
  readyState :: "conn \<Rightarrow> ready_state"
  listeners :: "conn list"
  sent :: "(conn \<times> json) list"
  close_calls :: "conn list"
  console :: "console_entry list"

definition initial_data :: js_object where
  "initial_data =
     [(lit ''amount'', Some (JStr (lit ''LOADING...''))),
      (lit ''name'', Some (JStr (lit ''LOADING...'')))]"

definition console_log :: "console_entry \<Rightarrow> server \<Rightarrow> server" where
  "console_log e s = s\<lparr>console := console s @ [e]\<rparr>"

definition ws_send :: "conn \<Rightarrow> json \<Rightarrow> server \<Rightarrow> server" where
  "ws_send ws frame s = s\<lparr>sent := sent s @ [(ws, frame)]\<rparr>"

definition clients_add :: "conn \<Rightarrow> server \<Rightarrow> server" where
  "clients_add ws s =
     s\<lparr>clients := (if ws \<in> set (clients s) then clients s else clients s @ [ws])\<rparr>"

definition clients_delete :: "conn \<Rightarrow> server \<Rightarrow> server" where
  "clients_delete ws s = s\<lparr>clients := removeAll ws (clients s)\<rparr>"

definition hasOwnProperty :: "js_object \<Rightarrow> js_string \<Rightarrow> bool" where
  "hasOwnProperty obj k = (k \<in> set (map fst obj))"

definition assign :: "js_string \<Rightarrow> jsval \<Rightarrow> js_object \<Rightarrow> js_object" where
  "assign k v obj = AList.update k v obj"

definition lookup :: "js_object \<Rightarrow> js_string \<Rightarrow> jsval option" where
  "lookup obj k = map_of obj k"

text \<open>
  \<^verbatim>\<open>broadcast(message, sender)\<close>. \<^verbatim>\<open>clients.forEach\<close> visits the members in insertion order;
  the callback deletes nothing but the member it is visiting, which does not disturb the
  visit of the others, so the loop runs over the members present at the call.
\<close>

fun forEach_client :: "json \<Rightarrow> conn option \<Rightarrow> conn list \<Rightarrow> server \<Rightarrow> server" where
  "forEach_client messageString sender [] s = s"
| "forEach_client messageString sender (client # rest) s =
     forEach_client messageString sender rest
       (if Some client \<noteq> sender \<and> readyState s client = OPEN
          then ws_send client messageString s
        else if Some client = sender then s
        else if readyState s client \<noteq> OPEN
          then clients_delete client (console_log Warn_stale_removed s)
        else s)"

definition broadcast :: "message \<Rightarrow> conn option \<Rightarrow> server \<Rightarrow> server" where
  "broadcast msg sender s =
     (let messageString = JSON_stringify msg;
          s1 = console_log (Log_broadcasting messageString) s
      in forEach_client messageString sender (clients s1) s1)"

text \<open>
  The \<^verbatim>\<open>message\<close> listener of socket \<open>ws\<close>, applied to the result of \<^verbatim>\<open>JSON.parse\<close>. Every
  exception inside the \<^verbatim>\<open>try\<close> block ends in the \<^verbatim>\<open>catch\<close> branch, which only logs and keeps
  what was done before the exception. The exceptions are: \<^verbatim>\<open>JSON.parse\<close> rejecting the frame;
  reading \<^verbatim>\<open>type\<close> of \<^verbatim>\<open>null\<close>; turning the field into a property key for \<^verbatim>\<open>hasOwnProperty\<close>;
  turning the value into text for the console line, which comes after the assignment to
  \<^verbatim>\<open>currentData\<close> and before the call of \<^verbatim>\<open>broadcast\<close>; and turning \<^verbatim>\<open>type\<close> into text for the
  console line of the last branch.
\<close>

definition on_message :: "conn \<Rightarrow> json option \<Rightarrow> server \<Rightarrow> server" where
  "on_message ws parsed s0 =
     (let s = console_log Log_received s0 in
      case parsed of
        None \<Rightarrow> console_log Error_process_failed s
      | Some parsedMessage \<Rightarrow>
          (case get_prop (Some parsedMessage) (lit ''type'') of
             Inl err \<Rightarrow> console_log Error_process_failed s
           | Inr ty \<Rightarrow>
               (case get_prop (Some parsedMessage) (lit ''payload'') of
                  Inl err \<Rightarrow> console_log Error_process_failed s
                | Inr payload \<Rightarrow>
                    if ty = Some (JStr (lit ''update'')) \<and> truthy payload then
                      (case (get_prop payload (lit ''field''), get_prop payload (lit ''value'')) of
                         (Inr field, Inr val) \<Rightarrow>
                           (case js_to_string field of
                              Inl err \<Rightarrow> console_log Error_process_failed s
                            | Inr key \<Rightarrow>
                                if hasOwnProperty (currentData s) key then
                                  (let s1 = s\<lparr>currentData := assign key val (currentData s)\<rparr>
                                   in case js_to_string val of
                                        Inl err \<Rightarrow> console_log Error_process_failed s1
                                      | Inr text \<Rightarrow>
                                          broadcast (Update field val) (Some ws)
                                            (console_log (Log_updated key text) s1))
                                else console_log (Warn_unknown_field key) s)
                       | _ \<Rightarrow> console_log Error_process_failed s)
                    else if truthy ty then
                      (case js_to_string ty of
                         Inl err \<Rightarrow> console_log Error_process_failed s
                       | Inr text \<Rightarrow> console_log (Log_non_update text) s)
                    else console_log (Log_non_update (lit ''unknown'')) s)))"

text \<open>The \<^verbatim>\<open>connection\<close> handler. \<open>send_ok\<close> tells whether \<^verbatim>\<open>ws.send\<close> returns or throws.\<close>

definition on_connection :: "conn \<Rightarrow> bool \<Rightarrow> server \<Rightarrow> server" where
  "on_connection ws send_ok s0 =
     (let s1 = clients_add ws (console_log Log_client_connected s0);
          s2 = (if send_ok
                then console_log Log_sent_initial_state
                       (ws_send ws (JSON_stringify (Initial_state (currentData s1))) s1)
                else console_log Error_initial_state_failed s1)
      in s2\<lparr>listeners := ws # listeners s2\<rparr>)"

definition on_close :: "conn \<Rightarrow> server \<Rightarrow> server" where
  "on_close ws s = clients_delete ws (console_log Log_disconnected s)"

definition on_error :: "conn \<Rightarrow> server \<Rightarrow> server" where
  "on_error ws s =
     (let s1 = clients_delete ws (console_log Error_client s)
      in s1\<lparr>close_calls := close_calls s1 @ [ws]\<rparr>)"

text \<open>What can happen to the authority: a socket connects, an attached listener is called,
  or the library changes the \<^verbatim>\<open>readyState\<close> of a socket. An event for a socket whose
  listeners are not attached yet reaches no handler.\<close>

datatype event =
    Connection conn bool
  | Message conn "json option"
  | Close conn
  | Error conn
  | Ready conn ready_state

fun deliver :: "event \<Rightarrow> server \<Rightarrow> server" where
  "deliver (Connection ws send_ok) s = on_connection ws send_ok s"
| "deliver (Message ws parsed) s = (if ws \<in> set (listeners s) then on_message ws parsed s else s)"
| "deliver (Close ws) s = (if ws \<in> set (listeners s) then on_close ws s else s)"
| "deliver (Error ws) s = (if ws \<in> set (listeners s) then on_error ws s else s)"
| "deliver (Ready ws r) s = s\<lparr>readyState := (readyState s)(ws := r)\<rparr>"

fun run :: "event list \<Rightarrow> server \<Rightarrow> server" where
  "run [] s = s"
| "run (e # es) s = run es (deliver e s)"

section \<open>The page script (client)\<close>

text \<open>
  The display elements \<^verbatim>\<open>.info-card__content[data-field]\<close> in document order. Each carries
  its \<^verbatim>\<open>data-field\<close> name, its text and its \<^verbatim>\<open>contenteditable\<close> attribute (\<open>None\<close> when the
  attribute is absent). An element is referred to by its position.
\<close>

record element =
  data_field :: js_string
  textContent :: js_string
  contenteditable :: "js_string option"

text \<open>
  The variables of the script: the document, \<^verbatim>\<open>originalEditValue\<close>, the socket \<^verbatim>\<open>ws\<close>
  (\<open>None\<close> for \<^verbatim>\<open>null\<close>, otherwise its \<^verbatim>\<open>readyState\<close>) and the frames given to \<^verbatim>\<open>ws.send\<close>.
\<close>

record client =
  document :: "element list"
  originalEditValue :: js_string
  ws :: "ready_state option"
  ws_sent :: "json list"

text \<open>
  The script looks an element up with the selector
  \<^verbatim>\<open>.info-card__content[data-field="NAME"]\<close>, where \<^verbatim>\<open>NAME\<close> is pasted into the selector text.
  A name is plain when the quoted part of that selector denotes the name itself: it has no
  double quote and no backslash, no line feed, carriage return or form feed, no NUL, and no
  surrogate code unit (the CSS tokenizer ends the string at a quote, reads a backslash as an
  escape, rejects a line break and replaces NUL and lone surrogates).
\<close>

definition plain_unit :: "code_unit \<Rightarrow> bool" where
  "plain_unit u =
     (u \<noteq> 0x22 \<and> u \<noteq> 0x5C \<and> u \<noteq> 0x0A \<and> u \<noteq> 0x0D \<and> u \<noteq> 0x0C \<and> u \<noteq> 0x00
      \<and> \<not> (0xD800 \<le> u \<and> u \<le> 0xDFFF))"

definition plain_name :: "js_string \<Rightarrow> bool" where
  "plain_name name = list_all plain_unit name"

text \<open>The first element whose \<^verbatim>\<open>data-field\<close> is the name.\<close>

fun find_field :: "element list \<Rightarrow> js_string \<Rightarrow> nat option" where
  "find_field [] name = None"
| "find_field (e # es) name =
     (if data_field e = name then Some 0 else map_option Suc (find_field es name))"

text \<open>
  \<^verbatim>\<open>document.querySelector\<close> with the selector built from a name. For a plain name it yields
  the first element with that \<^verbatim>\<open>data-field\<close>, or \<^verbatim>\<open>null\<close>. For any other name the selector is
  not the test for that name (it may be rejected, or select by another condition); such a
  lookup is outside the model, and the result is \<open>None\<close>.
\<close>

datatype selected = Element nat | Null

definition querySelector :: "element list \<Rightarrow> js_string \<Rightarrow> selected option" where
  "querySelector els name =
     (if plain_name name
      then Some (case find_field els name of None \<Rightarrow> Null | Some i \<Rightarrow> Element i)
      else None)"

definition set_textContent :: "nat \<Rightarrow> js_string \<Rightarrow> client \<Rightarrow> client" where
  "set_textContent i t c = c\<lparr>document := (document c)[i := (document c ! i)\<lparr>textContent := t\<rparr>]\<rparr>"

definition setAttribute_contenteditable :: "nat \<Rightarrow> js_string \<Rightarrow> client \<Rightarrow> client" where
  "setAttribute_contenteditable i a c =
     c\<lparr>document := (document c)[i := (document c ! i)\<lparr>contenteditable := Some a\<rparr>]\<rparr>"

text \<open>The text that \<^verbatim>\<open>element.textContent = v\<close> stores: empty for \<^verbatim>\<open>null\<close> and \<^verbatim>\<open>undefined\<close>,
  \<^verbatim>\<open>String(v)\<close> otherwise, which may throw.\<close>

fun to_textContent :: "jsval \<Rightarrow> js_error + js_string" where
  "to_textContent None = Inr []"
| "to_textContent (Some JNull) = Inr []"
| "to_textContent (Some v) = to_string v"




text \<open>
  The loop of the \<^verbatim>\<open>initial_state\<close> branch. It runs inside the \<^verbatim>\<open>try\<close> block of the handler: a
  pair whose value throws when it is turned into text ends the loop, and the pairs after it
  are not looked at. The result is \<open>None\<close> when a lookup is outside the model.
\<close>

fun hydrate :: "(js_string \<times> json) list \<Rightarrow> client \<Rightarrow> client option" where
  "hydrate [] c = Some c"
| "hydrate ((field, val) # rest) c =
     (case querySelector (document c) field of
        None \<Rightarrow> None
      | Some Null \<Rightarrow> hydrate rest c
      | Some (Element i) \<Rightarrow>
          (case to_textContent (Some val) of
             Inl err \<Rightarrow> Some c
           | Inr text \<Rightarrow> hydrate rest (set_textContent i text c)))"


text \<open>
  \<^verbatim>\<open>String.prototype.trim\<close> removes white space and line terminators from both ends: TAB,
  LF, VT, FF, CR, SPACE, NBSP, U+1680, U+2000 to U+200A, U+2028, U+2029, U+202F, U+205F,
  U+3000 and U+FEFF.
\<close>

definition is_white_space :: "code_unit \<Rightarrow> bool" where
  "is_white_space u =
     (u = 0x09 \<or> u = 0x0A \<or> u = 0x0B \<or> u = 0x0C \<or> u = 0x0D \<or> u = 0x20 \<or> u = 0xA0
      \<or> u = 0x1680 \<or> (0x2000 \<le> u \<and> u \<le> 0x200A) \<or> u = 0x2028 \<or> u = 0x2029
      \<or> u = 0x202F \<or> u = 0x205F \<or> u = 0x3000 \<or> u = 0xFEFF)"

definition trim :: "js_string \<Rightarrow> js_string" where
  "trim s = rev (dropWhile is_white_space (rev (dropWhile is_white_space s)))"

definition finishEditing :: "nat \<Rightarrow> client \<Rightarrow> client" where
  "finishEditing i c =
     (if \<not> i < length (document c) \<or> contenteditable (document c ! i) \<noteq> Some (lit ''true'')
      then c
      else
        (let c1 = setAttribute_contenteditable i (lit ''false'') c;
             newValue = trim (textContent (document c1 ! i));
             field = data_field (document c1 ! i)
         in if newValue = [] \<or> newValue = originalEditValue c1
              then set_textContent i (originalEditValue c1) c1
            else if ws c1 = Some OPEN
              then c1\<lparr>ws_sent := ws_sent c1 @
                     [JSON_stringify (Update (Some (JStr field)) (Some (JStr newValue)))]\<rparr>
            else set_textContent i (originalEditValue c1) c1))"

text \<open>The \<^verbatim>\<open>dblclick\<close> listener of element \<open>i\<close>.\<close>

definition on_dblclick :: "nat \<Rightarrow> client \<Rightarrow> client" where
  "on_dblclick i c =
     (if \<not> i < length (document c) then c
      else if contenteditable (document c ! i) = Some (lit ''true'') \<or> ws c = None
              \<or> ws c \<noteq> Some OPEN
        then c
      else setAttribute_contenteditable i (lit ''true'')
             (c\<lparr>originalEditValue := textContent (document c ! i)\<rparr>))"

text \<open>The \<^verbatim>\<open>keydown\<close> listener of element \<open>i\<close>, applied to \<^verbatim>\<open>event.key\<close>.\<close>

definition on_keydown :: "nat \<Rightarrow> js_string \<Rightarrow> client \<Rightarrow> client" where
  "on_keydown i key c =
     (if \<not> i < length (document c) then c
      else if key = lit ''Enter'' then finishEditing i c
      else if key = lit ''Escape''
        then setAttribute_contenteditable i (lit ''false'')
               (set_textContent i (originalEditValue c) c)
      else c)"

text \<open>
  What the user and the network do to the page, apart from frames: a double click or a key
  press on an element, the timer that a \<^verbatim>\<open>blur\<close> started (it calls \<^verbatim>\<open>finishEditing\<close>), the
  user changing the text of an element that is editable, and the socket changing (a new
  \<^verbatim>\<open>readyState\<close>, or a new socket after a reconnect).
\<close>

datatype gesture =
    Dblclick nat
  | Keydown nat js_string
  | Blur_timeout nat
  | Typing nat js_string
  | Socket "ready_state option"

fun client_step :: "gesture \<Rightarrow> client \<Rightarrow> client" where
  "client_step (Dblclick i) c = on_dblclick i c"
| "client_step (Keydown i key) c = on_keydown i key c"
| "client_step (Blur_timeout i) c = finishEditing i c"
| "client_step (Typing i t) c =
     (if i < length (document c) \<and> contenteditable (document c ! i) = Some (lit ''true'')
      then set_textContent i t c else c)"
| "client_step (Socket r) c = c\<lparr>ws := r\<rparr>"

fun client_run :: "gesture list \<Rightarrow> client \<Rightarrow> client" where
  "client_run [] c = c"
| "client_run (g # gs) c = client_run gs (client_step g c)"

section \<open>Notions used to state the properties\<close>

text \<open>The frame \<^verbatim>\<open>{"type":"update","payload":{"field":f,"value":v}}\<close>.\<close>

definition update_frame :: "json \<Rightarrow> json \<Rightarrow> json" where
  "update_frame f v =
     JObj [(lit ''type'', JStr (lit ''update'')),
           (lit ''payload'', JObj [(lit ''field'', f), (lit ''value'', v)])]"

text \<open>The frame \<^verbatim>\<open>{"type":"initial_state","payload":{...}}\<close>.\<close>

definition initial_state_frame :: "(js_string \<times> json) list \<Rightarrow> json" where
  "initial_state_frame ps =
     JObj [(lit ''type'', JStr (lit ''initial_state'')), (lit ''payload'', JObj ps)]"

text \<open>The authority as the process starts it: the initial snapshot, no connection.\<close>

definition server_init :: "(conn \<Rightarrow> ready_state) \<Rightarrow> server" where
  "server_init rs =
     \<lparr>currentData = initial_data, clients = [], readyState = rs, listeners = [],
      sent = [], close_calls = [], console = []\<rparr>"

text \<open>A console line written by \<^verbatim>\<open>broadcast\<close>: there is one for each call.\<close>

fun is_broadcasting :: "console_entry \<Rightarrow> bool" where
  "is_broadcasting (Log_broadcasting frame) = True"
| "is_broadcasting e = False"

text \<open>The authority receiving a sequence of update frames, each with the socket it came
  from, a field name and a value.\<close>

fun receive_updates :: "(conn \<times> js_string \<times> json) list \<Rightarrow> server \<Rightarrow> server" where
  "receive_updates [] s = s"
| "receive_updates ((w, f, v) # us) s =
     receive_updates us (on_message w (Some (update_frame (JStr f) v)) s)"

text \<open>The shape test of the \<^verbatim>\<open>message\<close> listener:
  \<^verbatim>\<open>parsedMessage.type === 'update' && parsedMessage.payload\<close>.\<close>

definition update_with_payload :: "json \<Rightarrow> bool" where
  "update_with_payload m =
     (case (get_prop (Some m) (lit ''type''), get_prop (Some m) (lit ''payload'')) of
        (Inr ty, Inr payload) \<Rightarrow> ty = Some (JStr (lit ''update'')) \<and> truthy payload
      | _ \<Rightarrow> False)"

text \<open>A running authority with three registered sockets, the third one closed.\<close>

definition demo_server :: server where
  "demo_server =
     \<lparr>currentData = initial_data, clients = [1, 2, 3],
      readyState = (\<lambda>c. if c = 3 then CLOSED else OPEN), listeners = [3, 2, 1],
      sent = [], close_calls = [], console = []\<rparr>"

text \<open>A page with the two fields, connected, no edit in progress.\<close>

definition two_fields :: client where
  "two_fields =
     \<lparr>document =
        [\<lparr>data_field = lit ''amount'', textContent = lit ''100'', contenteditable = None\<rparr>,
         \<lparr>data_field = lit ''name'', textContent = lit ''Bob'', contenteditable = None\<rparr>],
      originalEditValue = [], ws = Some OPEN, ws_sent = []\<rparr>"

text \<open>A value that \<^verbatim>\<open>String(v)\<close> turns into text without throwing: every string, number,
  boolean and \<^verbatim>\<open>null\<close>, an object without an own \<^verbatim>\<open>toString\<close> property, and an array of
  such values.\<close>

definition printable :: "json \<Rightarrow> bool" where
  "printable v = (case to_string v of Inl err \<Rightarrow> False | Inr text \<Rightarrow> True)"

section \<open>Broadcast\<close>

lemma forEach_client_frame:
  "readyState (forEach_client m sd cs s) = readyState s \<and>
   currentData (forEach_client m sd cs s) = currentData s \<and>
   listeners (forEach_client m sd cs s) = listeners s \<and>
   close_calls (forEach_client m sd cs s) = close_calls s"
  by (induction cs arbitrary: s)
     (simp_all add: ws_send_def clients_delete_def console_log_def)

lemma forEach_client_sent:
  "sent (forEach_client m sd cs s) =
     sent s @ map (\<lambda>c. (c, m)) (filter (\<lambda>c. Some c \<noteq> sd \<and> readyState s c = OPEN) cs)"
  by (induction cs arbitrary: s)
     (simp_all add: ws_send_def clients_delete_def console_log_def)

lemma forEach_client_clients:
  "clients (forEach_client m sd cs s) =
     filter (\<lambda>c. \<not> (c \<in> set cs \<and> Some c \<noteq> sd \<and> readyState s c \<noteq> OPEN)) (clients s)"
proof (induction cs arbitrary: s)
  case Nil
  show ?case by simp
next
  case (Cons c cs)
  show ?case
    by (simp add: Cons.IH ws_send_def clients_delete_def console_log_def removeAll_filter_not_eq)
       (auto intro!: filter_cong)
qed

lemma forEach_client_console:
  "console (forEach_client m sd cs s) =
     console s @ map (\<lambda>c. Warn_stale_removed)
       (filter (\<lambda>c. Some c \<noteq> sd \<and> readyState s c \<noteq> OPEN) cs)"
  by (induction cs arbitrary: s)
     (simp_all add: ws_send_def clients_delete_def console_log_def)

lemma broadcast_sent:
  "sent (broadcast msg sd s) =
     sent s @ map (\<lambda>c. (c, JSON_stringify msg))
       (filter (\<lambda>c. Some c \<noteq> sd \<and> readyState s c = OPEN) (clients s))"
  by (simp add: broadcast_def Let_def forEach_client_sent console_log_def)

lemma broadcast_clients:
  "clients (broadcast msg sd s) =
     filter (\<lambda>c. Some c = sd \<or> readyState s c = OPEN) (clients s)"
  by (simp add: broadcast_def Let_def forEach_client_clients console_log_def)
     (auto intro!: filter_cong)

lemma broadcast_frame:
  "readyState (broadcast msg sd s) = readyState s \<and>
   currentData (broadcast msg sd s) = currentData s \<and>
   listeners (broadcast msg sd s) = listeners s \<and>
   close_calls (broadcast msg sd s) = close_calls s"
  by (simp add: broadcast_def Let_def forEach_client_frame console_log_def)

lemma broadcast_console:
  "console (broadcast msg sd s) =
     console s @ Log_broadcasting (JSON_stringify msg) #
       map (\<lambda>c. Warn_stale_removed)
         (filter (\<lambda>c. Some c \<noteq> sd \<and> readyState s c \<noteq> OPEN) (clients s))"
  by (simp add: broadcast_def Let_def forEach_client_console console_log_def)

section \<open>The message listener of the authority\<close>

lemma assign_keys: "hasOwnProperty d k \<Longrightarrow> map fst (assign k v d) = map fst d"
  by (simp add: assign_def hasOwnProperty_def update_keys)

lemma lookup_assign: "lookup (assign k v d) k' = (if k' = k then Some v else lookup d k')"
  by (simp add: lookup_def assign_def update_conv')

lemma lit_keys:
  "lit ''type'' \<noteq> lit ''payload''" "lit ''payload'' \<noteq> lit ''type''"
  "lit ''field'' \<noteq> lit ''value''" "lit ''value'' \<noteq> lit ''field''"
  "lit ''update'' \<noteq> lit ''initial_state''" "lit ''initial_state'' \<noteq> lit ''update''"
  "lit ''update'' \<noteq> []" "lit ''initial_state'' \<noteq> []"
  by (simp_all add: lit_def)

lemma on_message_update:
  "on_message w (Some (update_frame f v)) s =
     (case to_string f of
        Inl err \<Rightarrow> console_log Error_process_failed (console_log Log_received s)
      | Inr key \<Rightarrow>
          if hasOwnProperty (currentData s) key then
            (case to_string v of
               Inl err \<Rightarrow>
                 console_log Error_process_failed
                   (console_log Log_received s
                      \<lparr>currentData := assign key (Some v) (currentData s)\<rparr>)
             | Inr text \<Rightarrow>
                 broadcast (Update (Some f) (Some v)) (Some w)
                   (console_log (Log_updated key text)
                      (console_log Log_received s
                         \<lparr>currentData := assign key (Some v) (currentData s)\<rparr>)))
          else console_log (Warn_unknown_field key) (console_log Log_received s))"
  by (simp add: on_message_def update_frame_def Let_def console_log_def lit_keys
        split: sum.splits)

lemma stringify_update:
  "JSON_stringify (Update (Some f) (Some v)) = update_frame (stringify_value f) (stringify_value v)"
  by (simp add: update_frame_def)

lemma on_message_keys:
  "map fst (currentData (on_message w parsed s)) = map fst (currentData s)"
  by (auto simp: on_message_def Let_def console_log_def broadcast_frame assign_keys
           split: option.splits sum.splits)

lemma on_message_None:
  "on_message w None s = console_log Error_process_failed (console_log Log_received s)"
  by (simp add: on_message_def Let_def)

lemma on_message_not_update:
  assumes "\<not> update_with_payload m"
  shows "on_message w (Some m) s =
           console_log
             (case get_prop (Some m) (lit ''type'') of
                Inl err \<Rightarrow> Error_process_failed
              | Inr ty \<Rightarrow>
                  if truthy ty
                  then (case js_to_string ty of
                          Inl err \<Rightarrow> Error_process_failed
                        | Inr text \<Rightarrow> Log_non_update text)
                  else Log_non_update (lit ''unknown''))
             (console_log Log_received s)"
  using assms
  by (cases m) (auto simp: on_message_def Let_def update_with_payload_def split: sum.splits)

lemma on_message_discard:
  assumes "parsed = None \<or> (\<exists>m. parsed = Some m \<and> \<not> update_with_payload m)"
  shows "\<exists>e. on_message w parsed s = console_log e (console_log Log_received s) \<and> \<not> is_broadcasting e"
  using assms
proof (elim disjE exE conjE)
  assume "parsed = None"
  then have "on_message w parsed s =
               console_log Error_process_failed (console_log Log_received s)
             \<and> \<not> is_broadcasting Error_process_failed"
    by (simp add: on_message_None)
  then show ?thesis by blast
next
  fix m
  assume p: "parsed = Some m" and n: "\<not> update_with_payload m"
  let ?e = "case get_prop (Some m) (lit ''type'') of
              Inl err \<Rightarrow> Error_process_failed
            | Inr ty \<Rightarrow>
                if truthy ty
                then (case js_to_string ty of
                        Inl err \<Rightarrow> Error_process_failed
                      | Inr text \<Rightarrow> Log_non_update text)
                else Log_non_update (lit ''unknown'')"
  have "\<not> is_broadcasting ?e"
    by (simp split: sum.splits)
  moreover have "on_message w parsed s = console_log ?e (console_log Log_received s)"
    unfolding p by (rule on_message_not_update [OF n])
  ultimately show ?thesis by blast
qed

lemma printableD: "printable v \<Longrightarrow> \<exists>text. to_string v = Inr text"
  by (cases "to_string v") (simp_all add: printable_def)

lemma printable_JStr: "printable (JStr t)"
  by (simp add: printable_def)

lemma on_message_update_data:
  "hasOwnProperty (currentData s) f \<Longrightarrow>
   currentData (on_message w (Some (update_frame (JStr f) v)) s) = assign f (Some v) (currentData s)"
  by (simp add: on_message_update broadcast_frame console_log_def split: sum.splits)

lemma on_message_update_sent:
  assumes "hasOwnProperty (currentData s) f" and "printable v"
  shows "sent (on_message w (Some (update_frame (JStr f) v)) s) =
           sent s @ map (\<lambda>c. (c, update_frame (JStr f) (stringify_value v)))
             (filter (\<lambda>c. c \<noteq> w \<and> readyState s c = OPEN) (clients s))"
proof -
  from printableD [OF assms(2)] obtain tx where "to_string v = Inr tx" ..
  then show ?thesis
    using assms(1)
    by (simp add: on_message_update broadcast_sent console_log_def stringify_update
          del: JSON_stringify.simps)
qed

lemma on_message_update_calls:
  assumes "hasOwnProperty (currentData s) f" and "printable v"
  shows "length (filter is_broadcasting (console (on_message w (Some (update_frame (JStr f) v)) s))) =
           Suc (length (filter is_broadcasting (console s)))"
proof -
  from printableD [OF assms(2)] obtain tx where "to_string v = Inr tx" ..
  then show ?thesis
    using assms(1) by (simp add: on_message_update broadcast_console console_log_def)
qed

lemma hasOwnProperty_keys:
  "map fst d' = map fst d \<Longrightarrow> hasOwnProperty d' k = hasOwnProperty d k"
  by (simp add: hasOwnProperty_def)

lemma receive_updates_append:
  "receive_updates (xs @ ys) s = receive_updates ys (receive_updates xs s)"
  by (induction xs arbitrary: s) auto

lemma receive_updates_keys:
  "map fst (currentData (receive_updates us s)) = map fst (currentData s)"
  by (induction us arbitrary: s) (auto simp: on_message_keys)

lemma receive_updates_other:
  assumes "\<forall>u\<in>set us. hasOwnProperty (currentData s) (fst (snd u))"
      and "f \<notin> set (map (\<lambda>u. fst (snd u)) us)"
  shows "lookup (currentData (receive_updates us s)) f = lookup (currentData s) f"
  using assms
proof (induction us arbitrary: s)
  case Nil
  show ?case by simp
next
  case (Cons u us)
  obtain w g v where u: "u = (w, g, v)" by (cases u) auto
  let ?s = "on_message w (Some (update_frame (JStr g) v)) s"
  have known: "hasOwnProperty (currentData s) g" using Cons.prems(1) u by simp
  have keys: "map fst (currentData ?s) = map fst (currentData s)" by (rule on_message_keys)
  have "\<forall>x\<in>set us. hasOwnProperty (currentData ?s) (fst (snd x))"
    using Cons.prems(1) hasOwnProperty_keys [OF keys] by simp
  moreover have "f \<notin> set (map (\<lambda>u. fst (snd u)) us)" using Cons.prems(2) by simp
  ultimately have "lookup (currentData (receive_updates us ?s)) f = lookup (currentData ?s) f"
    by (rule Cons.IH)
  moreover have "lookup (currentData ?s) f = lookup (currentData s) f"
    using Cons.prems(2) u by (simp add: on_message_update_data [OF known] lookup_assign)
  ultimately show ?case using u by simp
qed

lemma receive_updates_calls:
  assumes "\<forall>u\<in>set us. hasOwnProperty (currentData s) (fst (snd u)) \<and> printable (snd (snd u))"
  shows "length (filter is_broadcasting (console (receive_updates us s))) =
           length (filter is_broadcasting (console s)) + length us"
  using assms
proof (induction us arbitrary: s)
  case Nil
  show ?case by simp
next
  case (Cons u us)
  obtain w g v where u: "u = (w, g, v)" by (cases u) auto
  let ?s = "on_message w (Some (update_frame (JStr g) v)) s"
  have known: "hasOwnProperty (currentData s) g" using Cons.prems u by simp
  have pr: "printable v" using Cons.prems u by simp
  have keys: "map fst (currentData ?s) = map fst (currentData s)" by (rule on_message_keys)
  have "\<forall>x\<in>set us. hasOwnProperty (currentData ?s) (fst (snd x)) \<and> printable (snd (snd x))"
    using Cons.prems hasOwnProperty_keys [OF keys] by simp
  then have "length (filter is_broadcasting (console (receive_updates us ?s))) =
               length (filter is_broadcasting (console ?s)) + length us"
    by (rule Cons.IH)
  then show ?case using u by (simp add: on_message_update_calls [OF known pr])
qed

section \<open>Last write wins\<close>

text \<open>
  The authority receives a sequence \<open>us\<close> of update frames, each naming a key of the store
  and carrying a value that can be turned into text (every string is such a value). If
  \<open>(w, f, v)\<close> is the last frame of the sequence that names \<open>f\<close>, the store holds \<open>v\<close> for \<open>f\<close>
  afterwards. The sequence makes as many calls of \<^verbatim>\<open>broadcast\<close> as it has frames; the call
  made for a frame from socket \<open>w\<close> hands the serialised update to every registered open
  socket other than \<open>w\<close> and to nothing else, and it is the only call made for that frame.
\<close>

lemma last_write_wins:
  assumes known: "\<forall>u\<in>set us. hasOwnProperty (currentData s) (fst (snd u))
                              \<and> printable (snd (snd u))"
      and split: "us = before @ (w, f, v) # after"
      and last: "f \<notin> set (map (\<lambda>u. fst (snd u)) after)"
  shows "lookup (currentData (receive_updates us s)) f = Some (Some v)
       \<and> length (filter is_broadcasting (console (receive_updates us s))) =
           length (filter is_broadcasting (console s)) + length us
       \<and> (\<forall>t. hasOwnProperty (currentData t) f \<longrightarrow>
            sent (on_message w (Some (update_frame (JStr f) v)) t) =
              sent t @ map (\<lambda>c. (c, update_frame (JStr f) (stringify_value v)))
                (filter (\<lambda>c. c \<noteq> w \<and> readyState t c = OPEN) (clients t))
          \<and> length (filter is_broadcasting
                (console (on_message w (Some (update_frame (JStr f) v)) t))) =
              Suc (length (filter is_broadcasting (console t))))"
proof -
  let ?s1 = "receive_updates before s"
  let ?s2 = "on_message w (Some (update_frame (JStr f) v)) ?s1"
  have known': "\<forall>u\<in>set us. hasOwnProperty (currentData s) (fst (snd u))"
    using known by simp
  have pr: "printable v"
    using known split by simp
  have k1: "map fst (currentData ?s1) = map fst (currentData s)"
    by (rule receive_updates_keys)
  have k2: "map fst (currentData ?s2) = map fst (currentData s)"
    by (simp add: on_message_keys k1)
  have fknown: "hasOwnProperty (currentData ?s1) f"
    using known' split hasOwnProperty_keys [OF k1] by simp
  have "\<forall>u\<in>set after. hasOwnProperty (currentData ?s2) (fst (snd u))"
    using known' split hasOwnProperty_keys [OF k2] by simp
  then have "lookup (currentData (receive_updates after ?s2)) f = lookup (currentData ?s2) f"
    using last by (rule receive_updates_other)
  also have "\<dots> = Some (Some v)"
    by (simp add: on_message_update_data [OF fknown] lookup_assign)
  finally have a: "lookup (currentData (receive_updates us s)) f = Some (Some v)"
    by (simp add: split receive_updates_append)
  show ?thesis
    using a receive_updates_calls [OF known] on_message_update_sent [OF _ pr]
      on_message_update_calls [OF _ pr]
    by simp
qed


section \<open>The store keeps its keys\<close>

lemma on_connection_data: "currentData (on_connection w ok s) = currentData s"
  by (simp add: on_connection_def Let_def clients_add_def console_log_def ws_send_def)

lemma on_close_data: "currentData (on_close w s) = currentData s"
  by (simp add: on_close_def clients_delete_def console_log_def)

lemma on_error_data: "currentData (on_error w s) = currentData s"
  by (simp add: on_error_def Let_def clients_delete_def console_log_def)

lemma deliver_keys: "map fst (currentData (deliver e s)) = map fst (currentData s)"
  by (cases e) (simp_all add: on_message_keys on_connection_data on_close_data on_error_data)

lemma run_keys: "map fst (currentData (run evs s)) = map fst (currentData s)"
  by (induction evs arbitrary: s) (simp_all add: deliver_keys)

text \<open>
  Claim C2. An update frame whose field is not a key of \<^verbatim>\<open>currentData\<close> (the key is the text
  of the field, as \<^verbatim>\<open>hasOwnProperty\<close> takes it; a field that cannot be turned into text is
  no key either) only writes two console lines: the store and the frames sent are as before
  and \<^verbatim>\<open>broadcast\<close> is not called. Whatever events the authority receives after its start,
  the keys of the store are \<^verbatim>\<open>amount\<close> and \<^verbatim>\<open>name\<close>.
\<close>

theorem unknown_field_rejected:
  "((\<forall>k. to_string f = Inr k \<longrightarrow> \<not> hasOwnProperty (currentData s) k) \<longrightarrow>
      on_message w (Some (update_frame f v)) s =
        console_log
          (case to_string f of
             Inl err \<Rightarrow> Error_process_failed
           | Inr k \<Rightarrow> Warn_unknown_field k)
          (console_log Log_received s)
      \<and> currentData (on_message w (Some (update_frame f v)) s) = currentData s
      \<and> sent (on_message w (Some (update_frame f v)) s) = sent s
      \<and> filter is_broadcasting (console (on_message w (Some (update_frame f v)) s)) =
          filter is_broadcasting (console s))
   \<and> set (map fst (currentData (run evs (server_init rs)))) = {lit ''amount'', lit ''name''}"
proof -
  have "map fst (currentData (run evs (server_init rs))) = [lit ''amount'', lit ''name'']"
    by (simp add: run_keys server_init_def initial_data_def)
  then show ?thesis
    by (cases "to_string f") (simp_all add: on_message_update console_log_def)
qed

theorem unknown_field_rejected_witness:
  "to_string (JStr (lit ''balance'')) = Inr (lit ''balance'')
   \<and> \<not> hasOwnProperty (currentData demo_server) (lit ''balance'')
   \<and> currentData (on_message 1 (Some (update_frame (JStr (lit ''balance'')) (JStr (lit ''7''))))
        demo_server) = currentData demo_server
   \<and> sent (on_message 1 (Some (update_frame (JStr (lit ''balance'')) (JStr (lit ''7''))))
        demo_server) = []
   \<and> set (map fst (currentData (run
        [Connection 1 True,
         Message 1 (Some (update_frame (JStr (lit ''balance'')) (JStr (lit ''7'')))),
         Message 1 (Some (update_frame (JStr (lit ''name'')) (JStr (lit ''Al''))))]
        (server_init (\<lambda>c. OPEN))))) = {lit ''amount'', lit ''name''}"
proof -
  have h: "\<not> hasOwnProperty (currentData demo_server) (lit ''balance'')"
    by (simp add: demo_server_def initial_data_def hasOwnProperty_def lit_def)
  have e: "sent demo_server = []"
    by (simp add: demo_server_def)
  note t = unknown_field_rejected [of "JStr (lit ''balance'')" demo_server 1 "JStr (lit ''7'')"
      "[Connection 1 True,
        Message 1 (Some (update_frame (JStr (lit ''balance'')) (JStr (lit ''7'')))),
        Message 1 (Some (update_frame (JStr (lit ''name'')) (JStr (lit ''Al''))))]"
      "\<lambda>c. OPEN"]
  have a: "currentData (on_message 1
             (Some (update_frame (JStr (lit ''balance'')) (JStr (lit ''7'')))) demo_server) =
           currentData demo_server
         \<and> sent (on_message 1
             (Some (update_frame (JStr (lit ''balance'')) (JStr (lit ''7'')))) demo_server) = []"
    using t h e by (simp add: console_log_def)
  have b: "set (map fst (currentData (run
        [Connection 1 True,
         Message 1 (Some (update_frame (JStr (lit ''balance'')) (JStr (lit ''7'')))),
         Message 1 (Some (update_frame (JStr (lit ''name'')) (JStr (lit ''Al''))))]
        (server_init (\<lambda>c. OPEN))))) = {lit ''amount'', lit ''name''}"
    using t by blast
  show ?thesis
    using h a b by simp
qed

section \<open>A new connection\<close>

lemma on_connection_listeners: "listeners (on_connection w ok s) = w # listeners s"
  by (simp add: on_connection_def Let_def clients_add_def console_log_def ws_send_def)

lemma on_message_listeners: "listeners (on_message w parsed s) = listeners s"
  by (auto simp: on_message_def Let_def console_log_def broadcast_frame
           split: option.splits sum.splits)

lemma on_close_listeners: "listeners (on_close w s) = listeners s"
  by (simp add: on_close_def clients_delete_def console_log_def)

lemma on_error_listeners: "listeners (on_error w s) = listeners s"
  by (simp add: on_error_def Let_def clients_delete_def console_log_def)

lemma deliver_listeners:
  "w \<in> set (listeners (deliver e s)) \<longleftrightarrow>
     w \<in> set (listeners s) \<or> (\<exists>ok. e = Connection w ok)"
  by (cases e)
     (auto simp: on_connection_listeners on_message_listeners on_close_listeners
        on_error_listeners)

lemma run_listeners:
  "w \<in> set (listeners (run evs s)) \<longleftrightarrow>
     w \<in> set (listeners s) \<or> (\<exists>ok. Connection w ok \<in> set evs)"
  by (induction evs arbitrary: s) (auto simp: deliver_listeners)

lemma defined_props_all:
  "(\<forall>p\<in>set d. \<exists>v. snd p = Some v \<and> stringify_value v = v) \<Longrightarrow>
   map (\<lambda>p. (fst p, Some (snd p))) (defined_props d) = d"
  by (induction d rule: defined_props.induct) auto

text \<open>
  Claim C3, as stated, fails. An update frame without a \<^verbatim>\<open>value\<close> property makes the
  authority store \<^verbatim>\<open>undefined\<close> for \<^verbatim>\<open>amount\<close>: the store still has the keys \<^verbatim>\<open>amount\<close> and
  \<^verbatim>\<open>name\<close>. \<^verbatim>\<open>JSON.stringify\<close> leaves such a property out, so the payload that the next
  connection receives has the field \<^verbatim>\<open>name\<close> only and is not the store.
\<close>

theorem initial_state_omits_undefined_counterexample:
  "lookup (currentData (run
      [Connection 1 True,
       Message 1 (Some (JObj [(lit ''type'', JStr (lit ''update'')),
                              (lit ''payload'', JObj [(lit ''field'', JStr (lit ''amount''))])]))]
      (server_init (\<lambda>c. OPEN)))) (lit ''amount'') = Some None
   \<and> map fst (currentData (run
      [Connection 1 True,
       Message 1 (Some (JObj [(lit ''type'', JStr (lit ''update'')),
                              (lit ''payload'', JObj [(lit ''field'', JStr (lit ''amount''))])]))]
      (server_init (\<lambda>c. OPEN)))) = [lit ''amount'', lit ''name'']
   \<and> sent (run
      [Connection 1 True,
       Message 1 (Some (JObj [(lit ''type'', JStr (lit ''update'')),
                              (lit ''payload'', JObj [(lit ''field'', JStr (lit ''amount''))])])),
       Connection 2 True]
      (server_init (\<lambda>c. OPEN))) =
     [(1, initial_state_frame [(lit ''amount'', JStr (lit ''LOADING...'')),
                               (lit ''name'', JStr (lit ''LOADING...''))]),
      (2, initial_state_frame [(lit ''name'', JStr (lit ''LOADING...''))])]"
  by (simp add: server_init_def initial_data_def on_connection_def on_message_def Let_def
        clients_add_def console_log_def ws_send_def hasOwnProperty_def assign_def lookup_def
        broadcast_def initial_state_frame_def lit_def)

text \<open>
  Claim C3, amended. The connection handler registers the socket and hands it one frame, the
  serialisation of the \<^verbatim>\<open>initial_state\<close> message whose payload is \<^verbatim>\<open>currentData\<close> as it is at
  that moment. The payload on the wire lists the fields and values of the store when every
  stored value is defined and serialises to itself (no number that is not finite); a field
  whose value is \<^verbatim>\<open>undefined\<close> is left out. If \<^verbatim>\<open>send\<close> throws, nothing is sent, the failure is
  written to the console and the socket stays registered. The store is not touched. The
  listeners of the socket are attached by the handler: as long as no connection event for the
  socket has occurred, a frame from it reaches no handler.
\<close>

theorem connection_hydrates:
  "w \<in> set (clients (on_connection w ok s))
   \<and> sent (on_connection w ok s) =
       sent s @ (if ok then [(w, JSON_stringify (Initial_state (currentData s)))] else [])
   \<and> JSON_stringify (Initial_state (currentData s)) =
       initial_state_frame (defined_props (currentData s))
   \<and> ((\<forall>p\<in>set (currentData s). \<exists>v. snd p = Some v \<and> stringify_value v = v) \<longrightarrow>
        map (\<lambda>p. (fst p, Some (snd p))) (defined_props (currentData s)) = currentData s)
   \<and> (\<not> ok \<longrightarrow>
        console (on_connection w ok s) =
          console s @ [Log_client_connected, Error_initial_state_failed])
   \<and> currentData (on_connection w ok s) = currentData s
   \<and> w \<in> set (listeners (on_connection w ok s))
   \<and> ((\<forall>b. Connection w b \<notin> set evs) \<longrightarrow>
        deliver (Message w parsed) (run evs (server_init rs)) = run evs (server_init rs))"
proof -
  have l: "(\<forall>b. Connection w b \<notin> set evs) \<longrightarrow> w \<notin> set (listeners (run evs (server_init rs)))"
    by (simp add: run_listeners server_init_def)
  have d: "(\<forall>p\<in>set (currentData s). \<exists>v. snd p = Some v \<and> stringify_value v = v) \<longrightarrow>
        map (\<lambda>p. (fst p, Some (snd p))) (defined_props (currentData s)) = currentData s"
    using defined_props_all by blast
  show ?thesis
    using d l
    by (simp add: on_connection_def Let_def clients_add_def console_log_def ws_send_def
          initial_state_frame_def)
qed

theorem connection_hydrates_witness:
  "(\<forall>b. Connection 4 b \<notin> set [Connection 1 True])
   \<and> 4 \<in> set (clients (on_connection 4 True demo_server))
   \<and> sent (on_connection 4 True demo_server) =
       [(4, initial_state_frame
              [(lit ''amount'', JStr (lit ''LOADING...'')),
               (lit ''name'', JStr (lit ''LOADING...''))])]
   \<and> map (\<lambda>p. (fst p, Some (snd p)))
       [(lit ''amount'', JStr (lit ''LOADING...'')), (lit ''name'', JStr (lit ''LOADING...''))] =
       currentData demo_server
   \<and> console (on_connection 4 False demo_server) =
       [Log_client_connected, Error_initial_state_failed]
   \<and> 4 \<in> set (clients (on_connection 4 False demo_server))
   \<and> deliver (Message 4 (Some (update_frame (JStr (lit ''name'')) (JStr (lit ''Al'')))))
        (run [Connection 1 True] (server_init (\<lambda>c. OPEN))) =
       run [Connection 1 True] (server_init (\<lambda>c. OPEN))"
proof -
  have h1: "\<forall>p\<in>set (currentData demo_server). \<exists>v. snd p = Some v \<and> stringify_value v = v"
    by (simp add: demo_server_def initial_data_def)
  have h2: "\<forall>b. Connection 4 b \<notin> set [Connection 1 True]"
    by simp
  have e: "sent demo_server = [] \<and> console demo_server = []
           \<and> defined_props (currentData demo_server) =
              [(lit ''amount'', JStr (lit ''LOADING...'')),
               (lit ''name'', JStr (lit ''LOADING...''))]"
    by (simp add: demo_server_def initial_data_def)
  note t1 = connection_hydrates [of 4 True demo_server "[Connection 1 True]"
        "Some (update_frame (JStr (lit ''name'')) (JStr (lit ''Al'')))" "\<lambda>c. OPEN"]
  note t2 = connection_hydrates [of 4 False demo_server "[Connection 1 True]"
        "Some (update_frame (JStr (lit ''name'')) (JStr (lit ''Al'')))" "\<lambda>c. OPEN"]
  have a: "4 \<in> set (clients (on_connection 4 True demo_server))
     \<and> sent (on_connection 4 True demo_server) =
       [(4, initial_state_frame
              [(lit ''amount'', JStr (lit ''LOADING...'')),
               (lit ''name'', JStr (lit ''LOADING...''))])]"
    using t1 e by simp
  have b: "map (\<lambda>p. (fst p, Some (snd p)))
       [(lit ''amount'', JStr (lit ''LOADING...'')), (lit ''name'', JStr (lit ''LOADING...''))] =
       currentData demo_server"
    using t1 h1 e by simp
  have c: "console (on_connection 4 False demo_server) =
       [Log_client_connected, Error_initial_state_failed]
     \<and> 4 \<in> set (clients (on_connection 4 False demo_server))"
    using t2 e by simp
  have d: "deliver (Message 4 (Some (update_frame (JStr (lit ''name'')) (JStr (lit ''Al'')))))
        (run [Connection 1 True] (server_init (\<lambda>c. OPEN))) =
       run [Connection 1 True] (server_init (\<lambda>c. OPEN))"
    using t1 h2 by blast
  show ?thesis
    using h2 a b c d by blast
qed

section \<open>Fan-out\<close>

text \<open>
  Claim C4. \<^verbatim>\<open>broadcast(msg, sender)\<close> serialises \<open>msg\<close> once (one console line, one frame) and
  hands that frame, in registry order, to exactly the registered sockets that are open and
  are not the sender. The registry keeps the sender and the open sockets; every other
  socket that is not open is removed, receives nothing, and receives nothing from a
  following broadcast either.
\<close>

theorem broadcast_fanout:
  "sent (broadcast msg sd s) =
     sent s @ map (\<lambda>c. (c, JSON_stringify msg))
       (filter (\<lambda>c. Some c \<noteq> sd \<and> readyState s c = OPEN) (clients s))
   \<and> clients (broadcast msg sd s) =
       filter (\<lambda>c. Some c = sd \<or> readyState s c = OPEN) (clients s)
   \<and> filter is_broadcasting (console (broadcast msg sd s)) =
       filter is_broadcasting (console s) @ [Log_broadcasting (JSON_stringify msg)]
   \<and> (\<forall>c. Some c \<noteq> sd \<and> readyState s c \<noteq> OPEN \<longrightarrow>
         c \<notin> set (clients (broadcast msg sd s))
       \<and> c \<notin> fst ` set (drop (length (sent s)) (sent (broadcast msg sd s)))
       \<and> c \<notin> fst ` set (drop (length (sent (broadcast msg sd s)))
                          (sent (broadcast msg' sd' (broadcast msg sd s)))))"
proof -
  have c: "filter is_broadcasting (map (\<lambda>c. Warn_stale_removed) xs) = []" for xs :: "conn list"
    by (induction xs) auto
  show ?thesis
    by (auto simp: broadcast_sent broadcast_clients broadcast_console broadcast_frame c)
qed

theorem broadcast_fanout_witness:
  "Some 3 \<noteq> Some (1::nat) \<and> readyState demo_server 3 \<noteq> OPEN
   \<and> sent (broadcast (Update (Some (JStr (lit ''name''))) (Some (JStr (lit ''Al'')))) (Some 1) demo_server) =
       [(2, update_frame (JStr (lit ''name'')) (JStr (lit ''Al'')))]
   \<and> clients (broadcast (Update (Some (JStr (lit ''name''))) (Some (JStr (lit ''Al'')))) (Some 1) demo_server) =
       [1, 2]
   \<and> 3 \<notin> fst ` set (drop
        (length (sent (broadcast (Update (Some (JStr (lit ''name''))) (Some (JStr (lit ''Al'')))) (Some 1)
           demo_server)))
        (sent (broadcast (Update (Some (JStr (lit ''amount''))) (Some (JStr (lit ''5'')))) None
           (broadcast (Update (Some (JStr (lit ''name''))) (Some (JStr (lit ''Al'')))) (Some 1)
              demo_server))))"
proof -
  have h: "Some 3 \<noteq> Some (1::nat) \<and> readyState demo_server 3 \<noteq> OPEN"
    by (simp add: demo_server_def)
  have e: "sent demo_server = [] \<and> clients demo_server = [1, 2, 3]
           \<and> readyState demo_server = (\<lambda>c. if c = 3 then CLOSED else OPEN)"
    by (simp add: demo_server_def)
  note t = broadcast_fanout [of "Update (Some (JStr (lit ''name''))) (Some (JStr (lit ''Al'')))" "Some 1"
        demo_server "Update (Some (JStr (lit ''amount''))) (Some (JStr (lit ''5'')))" None]
  have a: "sent (broadcast (Update (Some (JStr (lit ''name''))) (Some (JStr (lit ''Al'')))) (Some 1) demo_server) =
       [(2, update_frame (JStr (lit ''name'')) (JStr (lit ''Al'')))]
    \<and> clients (broadcast (Update (Some (JStr (lit ''name''))) (Some (JStr (lit ''Al'')))) (Some 1) demo_server) =
       [1, 2]"
    using t e by (simp add: update_frame_def)
  have b: "3 \<notin> fst ` set (drop
        (length (sent (broadcast (Update (Some (JStr (lit ''name''))) (Some (JStr (lit ''Al'')))) (Some 1)
           demo_server)))
        (sent (broadcast (Update (Some (JStr (lit ''amount''))) (Some (JStr (lit ''5'')))) None
           (broadcast (Update (Some (JStr (lit ''name''))) (Some (JStr (lit ''Al'')))) (Some 1)
              demo_server))))"
    using t h by blast
  show ?thesis
    using h a b by blast
qed

text \<open>
  Claim C10. When the socket given as sender is itself not open, the broadcast skips it
  and leaves its registration as it was, while every other socket that is not open is
  removed.
\<close>

theorem excluded_sender_kept:
  assumes "readyState s c \<noteq> OPEN"
  shows "(c \<in> set (clients (broadcast msg (Some c) s))) = (c \<in> set (clients s))
       \<and> filter (\<lambda>x. x = c) (clients (broadcast msg (Some c) s)) = filter (\<lambda>x. x = c) (clients s)
       \<and> c \<notin> fst ` set (drop (length (sent s)) (sent (broadcast msg (Some c) s)))
       \<and> (\<forall>d. d \<noteq> c \<and> readyState s d \<noteq> OPEN \<longrightarrow>
             d \<notin> set (clients (broadcast msg (Some c) s)))"
proof -
  have "filter (\<lambda>x. x = c) (filter (\<lambda>x. Some x = Some c \<or> readyState s x = OPEN) (clients s)) =
          filter (\<lambda>x. x = c) (clients s)"
    by (auto intro!: filter_cong)
  then show ?thesis
    by (auto simp: broadcast_sent broadcast_clients)
qed

theorem excluded_sender_kept_witness:
  "readyState demo_server 3 \<noteq> OPEN
   \<and> 3 \<in> set (clients demo_server)
   \<and> 3 \<in> set (clients (broadcast (Update (Some (JStr (lit ''name''))) (Some (JStr (lit ''Al'')))) (Some 3)
                          demo_server))"
proof -
  have h: "readyState demo_server 3 \<noteq> OPEN"
    by (simp add: demo_server_def)
  have e: "3 \<in> set (clients demo_server)"
    by (simp add: demo_server_def)
  show ?thesis
    using h e
      excluded_sender_kept [OF h, of "Update (Some (JStr (lit ''name''))) (Some (JStr (lit ''Al'')))"]
    by simp
qed

section \<open>Frames that are discarded\<close>

text \<open>
  Claim C5. When \<^verbatim>\<open>JSON.parse\<close> rejects a frame, or the parsed value fails the test
  \<^verbatim>\<open>type === 'update' && payload\<close>, the listener only writes to the console: the store, the
  registry, the state of the sockets, the attached listeners and the \<^verbatim>\<open>close()\<close> calls are
  as before, no frame is sent to anyone (so none to the peer), and \<^verbatim>\<open>broadcast\<close> is not
  called.
\<close>

theorem malformed_discarded:
  assumes "parsed = None \<or> (\<exists>m. parsed = Some m \<and> \<not> update_with_payload m)"
  shows "currentData (on_message w parsed s) = currentData s
       \<and> clients (on_message w parsed s) = clients s
       \<and> readyState (on_message w parsed s) = readyState s
       \<and> listeners (on_message w parsed s) = listeners s
       \<and> close_calls (on_message w parsed s) = close_calls s
       \<and> sent (on_message w parsed s) = sent s
       \<and> filter is_broadcasting (console (on_message w parsed s)) =
           filter is_broadcasting (console s)"
proof -
  obtain e where "on_message w parsed s = console_log e (console_log Log_received s)"
      and "\<not> is_broadcasting e"
    using on_message_discard [OF assms] by blast
  then show ?thesis
    by (simp add: console_log_def)
qed

theorem malformed_discarded_witness:
  "\<not> update_with_payload
       (JObj [(lit ''type'', JStr (lit ''delete'')), (lit ''payload'', JStr (lit ''x''))])
   \<and> \<not> update_with_payload JNull
   \<and> currentData (on_message 1 None demo_server) = currentData demo_server
   \<and> clients (on_message 1 (Some JNull) demo_server) = clients demo_server
   \<and> sent (on_message 1
        (Some (JObj [(lit ''type'', JStr (lit ''delete'')), (lit ''payload'', JStr (lit ''x''))]))
        demo_server) =
       sent demo_server"
proof -
  have h1: "\<not> update_with_payload
              (JObj [(lit ''type'', JStr (lit ''delete'')), (lit ''payload'', JStr (lit ''x''))])"
    by (simp add: update_with_payload_def lit_def)
  have h2: "\<not> update_with_payload JNull"
    by (simp add: update_with_payload_def)
  show ?thesis
    using h1 h2
      malformed_discarded [of None 1 demo_server]
      malformed_discarded [of "Some JNull" 1 demo_server]
      malformed_discarded
        [of "Some (JObj [(lit ''type'', JStr (lit ''delete'')),
                         (lit ''payload'', JStr (lit ''x''))])" 1 demo_server]
    by simp
qed

section \<open>The elements of the page\<close>


lemma find_field_fields:
  "map data_field els' = map data_field els \<Longrightarrow> find_field els' f = find_field els f"
proof (induction els arbitrary: els')
  case Nil
  then show ?case by simp
next
  case (Cons e els)
  from Cons.prems obtain e' rest where els': "els' = e' # rest"
    and e': "data_field e' = data_field e"
    and rest: "map data_field rest = map data_field els"
    by (cases els') simp_all
  from rest have "find_field rest f = find_field els f"
    by (rule Cons.IH)
  with els' e' show ?case by simp
qed

lemma querySelector_fields:
  "map data_field els' = map data_field els \<Longrightarrow> querySelector els' f = querySelector els f"
  using find_field_fields [of els' els f] by (simp add: querySelector_def)




lemma list_update_field:
  assumes "g y = g (xs ! i)"
  shows "map g (xs[i := y]) = map g xs"
proof (cases "i < length xs")
  case True
  then show ?thesis using assms by (simp add: map_update list_update_same_conv)
next
  case False
  then have "xs[i := y] = xs" by (simp add: not_less list_update_beyond)
  then show ?thesis by simp
qed



lemma setAttribute_frame:
  "originalEditValue (setAttribute_contenteditable i a c) = originalEditValue c
   \<and> ws (setAttribute_contenteditable i a c) = ws c
   \<and> ws_sent (setAttribute_contenteditable i a c) = ws_sent c
   \<and> length (document (setAttribute_contenteditable i a c)) = length (document c)
   \<and> map data_field (document (setAttribute_contenteditable i a c)) = map data_field (document c)
   \<and> map textContent (document (setAttribute_contenteditable i a c)) = map textContent (document c)"
  by (simp add: setAttribute_contenteditable_def list_update_field)

lemma hydrate_step:
  "hydrate ((k, v) # rest) c =
     (case querySelector (document c) k of
        None \<Rightarrow> None
      | Some Null \<Rightarrow> hydrate rest c
      | Some (Element i) \<Rightarrow>
          (case to_textContent (Some v) of
             Inl err \<Rightarrow> Some c
           | Inr t \<Rightarrow> hydrate rest (set_textContent i t c)))"
  by simp







section \<open>Updates and local edits\<close>




section \<open>Hydration\<close>




section \<open>Committing and cancelling an edit\<close>

text \<open>The frames a commit sends: one, with the trimmed text, exactly when the element is
  being edited, the trimmed text is neither empty nor the captured value, and the socket
  is open.\<close>

lemma finishEditing_sent:
  "ws_sent (finishEditing i c) =
     (if i < length (document c) \<and> contenteditable (document c ! i) = Some (lit ''true'')
         \<and> trim (textContent (document c ! i)) \<noteq> []
         \<and> trim (textContent (document c ! i)) \<noteq> originalEditValue c
         \<and> ws c = Some OPEN
      then ws_sent c @
             [update_frame (JStr (data_field (document c ! i)))
                (JStr (trim (textContent (document c ! i))))]
      else ws_sent c)"
  by (simp add: finishEditing_def Let_def setAttribute_contenteditable_def set_textContent_def
        update_frame_def)

text \<open>
  Claim C8, evaluated. The user types \<^verbatim>\<open>250\<close> followed by a space into \<^verbatim>\<open>amount\<close> and
  commits: one frame with the trimmed value is sent and the element keeps the text with the
  space. The user then starts a new edit, which captures that text, and commits without
  changing it: the trimmed text differs from the captured text, so a second frame is sent
  although the displayed text equals the value captured at edit start.
\<close>

theorem unchanged_padded_text_is_sent:
  "textContent (document (client_run
      [Dblclick 0, Typing 0 (lit ''250 ''), Keydown 0 (lit ''Enter'')] two_fields) ! 0) =
     lit ''250 ''
   \<and> ws_sent (client_run
        [Dblclick 0, Typing 0 (lit ''250 ''), Keydown 0 (lit ''Enter'')] two_fields) =
       [update_frame (JStr (lit ''amount'')) (JStr (lit ''250''))]
   \<and> originalEditValue (client_run
        [Dblclick 0, Typing 0 (lit ''250 ''), Keydown 0 (lit ''Enter''), Dblclick 0]
        two_fields) = lit ''250 ''
   \<and> textContent (document (client_run
        [Dblclick 0, Typing 0 (lit ''250 ''), Keydown 0 (lit ''Enter''), Dblclick 0]
        two_fields) ! 0) = lit ''250 ''
   \<and> ws_sent (client_run
        [Dblclick 0, Typing 0 (lit ''250 ''), Keydown 0 (lit ''Enter''), Dblclick 0,
         Keydown 0 (lit ''Enter'')]
        two_fields) =
       [update_frame (JStr (lit ''amount'')) (JStr (lit ''250'')),
        update_frame (JStr (lit ''amount'')) (JStr (lit ''250''))]"
  by (simp add: two_fields_def on_dblclick_def on_keydown_def finishEditing_def Let_def
        setAttribute_contenteditable_def set_textContent_def trim_def is_white_space_def
        update_frame_def lit_def)

text \<open>
  Claim C9, evaluated. \<^verbatim>\<open>originalEditValue\<close> is one variable for all elements. An edit of
  \<^verbatim>\<open>amount\<close> starts and captures \<^verbatim>\<open>100\<close>; the user clears the text. An edit of \<^verbatim>\<open>name\<close> starts
  before the blur timer of \<^verbatim>\<open>amount\<close> has run and captures \<^verbatim>\<open>Bob\<close>. The timer then commits
  \<^verbatim>\<open>amount\<close>: its text is empty, so the commit reverts and writes \<^verbatim>\<open>Bob\<close>, the text of the
  other field, into \<^verbatim>\<open>amount\<close>, and sends nothing. Cancelling the edit of \<^verbatim>\<open>amount\<close> with the
  escape key after the edit of \<^verbatim>\<open>name\<close> has started writes \<^verbatim>\<open>Bob\<close> into \<^verbatim>\<open>amount\<close> as well.
\<close>

theorem other_edit_start_changes_restored_value:
  "originalEditValue (client_run [Dblclick 0] two_fields) = lit ''100''
   \<and> textContent (document (client_run
        [Dblclick 0, Typing 0 [], Dblclick 1, Blur_timeout 0] two_fields) ! 0) = lit ''Bob''
   \<and> ws_sent (client_run
        [Dblclick 0, Typing 0 [], Dblclick 1, Blur_timeout 0] two_fields) = []
   \<and> textContent (document (client_run
        [Dblclick 0, Dblclick 1, Keydown 0 (lit ''Escape'')] two_fields) ! 0) = lit ''Bob''"
  by (simp add: two_fields_def on_dblclick_def on_keydown_def finishEditing_def Let_def
        setAttribute_contenteditable_def set_textContent_def trim_def is_white_space_def
        lit_def)

end
